theory Spec2Isabelle
  imports Complex_Main
begin

section \<open>PixelwiseSoftmaxClassifier, the pixel-wise classifier of chainercv.links.model\<close>

text \<open>
  The class is glue: it calls the predictor, chainer's \<open>F.softmax_cross_entropy\<close>,
  \<open>xp.argmax\<close>, \<open>xp.mean\<close>, chainercv's \<open>eval_semantic_segmentation\<close> and
  \<open>reporter.report\<close>. The routines it delegates to are parameters of the model (the record
  \<open>externals\<close>), so every theorem stated for an arbitrary \<open>ext\<close> holds whatever those
  routines compute. The model describes the calls in which the delegated routines return;
  the class catches nothing, so a failure of one of them aborts the call unchanged.
\<close>

subsection \<open>Data\<close>

text \<open>A floating-point scalar, idealised: a real number or NaN. Rounding is not modelled.\<close>

datatype scalar = NaN | Fin real

type_synonym array = "scalar list"

text \<open>
  A batch of label images (predicted or ground truth): one list per image, each image
  flattened to one entry per pixel.
\<close>

type_synonym labels = "int list list"

text \<open>The array module \<open>self.xp\<close> of a link: numpy on the CPU, cupy on a GPU.\<close>

datatype backend = Numpy | Cupy

text \<open>
  An instance attribute that \<open>__init__\<close> does not create: \<open>Unset\<close> until the first
  assignment. (\<open>self.accuracy = None\<close> is the assignment of Python's \<open>None\<close>, which is
  \<open>Assigned None\<close> below.)
\<close>

datatype 'a attr = Unset | Assigned 'a

text \<open>The predictor: an object with an attribute \<open>n_class\<close> that can be called on a batch.\<close>

record ('x, 'y) link =
  p_n_class :: int
  p_forward :: "'x \<Rightarrow> 'y"

text \<open>The four outputs of the evaluator, \<open>self.accuracy[0]\<close> to \<open>self.accuracy[3]\<close>.\<close>

type_synonym metrics = "array \<times> array \<times> array \<times> array"

text \<open>
  The instance. \<open>obj_id\<close> is the identity of the Python object (what \<open>self\<close> denotes
  when it is handed to the reporter as observer), \<open>xp\<close> the array module chainer derives
  from the device the link lives on.
\<close>

record ('x, 'y) classifier =
  obj_id :: nat
  predictor :: "('x, 'y) link"
  xp :: backend
  n_class :: int
  ignore_label :: int
  class_weight :: "array option"
  compute_accuracy :: bool
  y :: "'y attr"
  loss :: "scalar attr"
  accuracy :: "metrics option attr"

text \<open>
  The reporter: the sequence of \<open>reporter.report(values, observer)\<close> calls made so far,
  each a dictionary (in the order its keys are written) and the observer it is tagged with.
\<close>

type_synonym observation = "nat \<times> (string \<times> scalar) list"

type_synonym sink = "observation list"

definition report :: "(string \<times> scalar) list \<Rightarrow> nat \<Rightarrow> sink \<Rightarrow> sink" where
  "report values observer s = s @ [(observer, values)]"

text \<open>The routines of chainer, numpy/cupy and chainercv that the class calls.\<close>

record ('x, 'y, 'w) externals =
  softmax_cross_entropy :: "'y \<Rightarrow> labels \<Rightarrow> array option \<Rightarrow> int \<Rightarrow> scalar"
  xp_argmax_axis1 :: "backend \<Rightarrow> 'y \<Rightarrow> labels"
  xp_mean :: "backend \<Rightarrow> array \<Rightarrow> scalar"
  eval_semantic_segmentation :: "labels \<Rightarrow> labels \<Rightarrow> int \<Rightarrow> metrics"
  np_asarray_float32 :: "'w \<Rightarrow> array"
  cuda_to_cpu :: "array \<Rightarrow> array"
  cuda_to_gpu :: "array \<Rightarrow> int option \<Rightarrow> array"
  link_to_cpu :: "('x, 'y) link \<Rightarrow> ('x, 'y) link"
  link_to_gpu :: "('x, 'y) link \<Rightarrow> int option \<Rightarrow> ('x, 'y) link"

subsection \<open>Construction\<close>

text \<open>
  \<^verbatim>\<open>def __init__(self, predictor, ignore_label=-1, class_weight=None, compute_accuracy=True)\<close>

  An argument the caller leaves out is \<open>None\<close> here and takes the default of the signature.
  A new chainer link lives on the CPU.
\<close>

definition init ::
  "('x, 'y, 'w) externals \<Rightarrow> nat \<Rightarrow> ('x, 'y) link \<Rightarrow> int option \<Rightarrow> 'w option \<Rightarrow> bool option
    \<Rightarrow> ('x, 'y) classifier" where
  "init ext oid p ignore_label_arg class_weight_arg compute_accuracy_arg =
     \<lparr> obj_id = oid,
       predictor = p,
       xp = Numpy,
       n_class = p_n_class p,
       ignore_label = (case ignore_label_arg of None \<Rightarrow> - 1 | Some i \<Rightarrow> i),
       class_weight = (case class_weight_arg of
                         Some w \<Rightarrow> Some (np_asarray_float32 ext w)
                       | None \<Rightarrow> None),
       compute_accuracy = (case compute_accuracy_arg of None \<Rightarrow> True | Some b \<Rightarrow> b),
       y = Unset,
       loss = Unset,
       accuracy = Unset \<rparr>"

subsection \<open>Device transfer\<close>

text \<open>
  \<open>chainer.Chain.to_cpu\<close> and \<open>to_gpu\<close> (the \<open>super\<close> calls) move the registered
  parameters and child links: here the one child \<open>predictor\<close>. \<open>class_weight\<close> is a plain
  attribute, which is why the class moves it itself.
\<close>

definition chain_to_cpu :: "('x, 'y, 'w) externals \<Rightarrow> ('x, 'y) classifier \<Rightarrow> ('x, 'y) classifier" where
  "chain_to_cpu ext c = c\<lparr>predictor := link_to_cpu ext (predictor c), xp := Numpy\<rparr>"

definition chain_to_gpu ::
  "('x, 'y, 'w) externals \<Rightarrow> int option \<Rightarrow> ('x, 'y) classifier \<Rightarrow> ('x, 'y) classifier" where
  "chain_to_gpu ext device c = c\<lparr>predictor := link_to_gpu ext (predictor c) device, xp := Cupy\<rparr>"

definition to_cpu :: "('x, 'y, 'w) externals \<Rightarrow> ('x, 'y) classifier \<Rightarrow> ('x, 'y) classifier" where
  "to_cpu ext c =
     (let c1 = chain_to_cpu ext c in
      case class_weight c1 of
        Some w \<Rightarrow> c1\<lparr>class_weight := Some (cuda_to_cpu ext w)\<rparr>
      | None \<Rightarrow> c1)"

definition to_gpu ::
  "('x, 'y, 'w) externals \<Rightarrow> int option \<Rightarrow> ('x, 'y) classifier \<Rightarrow> ('x, 'y) classifier" where
  "to_gpu ext device c =
     (let c1 = chain_to_gpu ext device c in
      case class_weight c1 of
        Some w \<Rightarrow> c1\<lparr>class_weight := Some (cuda_to_gpu ext w device)\<rparr>
      | None \<Rightarrow> c1)"

subsection \<open>The forward call\<close>

text \<open>
  \<open>__call__(self, x, t)\<close>, statement by statement. The result is the returned loss, the
  instance after the call and the reporter after the call.
\<close>

definition call ::
  "('x, 'y, 'w) externals \<Rightarrow> ('x, 'y) classifier \<Rightarrow> 'x \<Rightarrow> labels \<Rightarrow> sink
    \<Rightarrow> scalar \<times> ('x, 'y) classifier \<times> sink" where
  "call ext c x t s =
     (let yv = p_forward (predictor c) x;
          c1 = c\<lparr>y := Assigned yv\<rparr>;
          l = softmax_cross_entropy ext yv t (class_weight c1) (ignore_label c1);
          c2 = c1\<lparr>loss := Assigned l\<rparr>;
          s1 = report [(''loss'', l)] (obj_id c2) s;
          c3 = c2\<lparr>accuracy := Assigned None\<rparr>
      in if compute_accuracy c3 then
           (let label = xp_argmax_axis1 ext (xp c3) yv;
                acc = eval_semantic_segmentation ext label t (n_class c3);
                c4 = c3\<lparr>accuracy := Assigned (Some acc)\<rparr>;
                s2 = (case acc of (a0, a1, a2, a3) \<Rightarrow>
                        report [(''pixel_accuracy'', xp_mean ext (xp c4) a0),
                                (''mean_accuracy'', xp_mean ext (xp c4) a1),
                                (''mean_iou'', xp_mean ext (xp c4) a2),
                                (''fw_iou'', xp_mean ext (xp c4) a3)] (obj_id c4) s1)
            in (l, c4, s2))
         else (l, c3, s1))"

subsection \<open>Reference routines\<close>

text \<open>
  Concrete routines on which the model can be run. A score map holds, for each image and
  each pixel, the score of class 0 and the scores of the remaining classes (the class axis
  of a score map is never empty).
\<close>

type_synonym scores = "(real \<times> real list) list list"

text \<open>Floating-point arithmetic on idealised scalars: NaN is absorbing and 0/0 is NaN.\<close>

fun fadd :: "scalar \<Rightarrow> scalar \<Rightarrow> scalar" where
  "fadd (Fin a) (Fin b) = Fin (a + b)"
| "fadd _ _ = NaN"

fun fmul :: "scalar \<Rightarrow> scalar \<Rightarrow> scalar" where
  "fmul (Fin a) (Fin b) = Fin (a * b)"
| "fmul _ _ = NaN"

fun fdiv_count :: "scalar \<Rightarrow> nat \<Rightarrow> scalar" where
  "fdiv_count NaN n = NaN"
| "fdiv_count (Fin r) n = (if n = 0 then NaN else Fin (r / real n))"

text \<open>
  \<open>numpy.mean\<close> of an array: the sum of all entries over their number. An entry that is
  NaN makes the sum NaN; nothing is skipped.
\<close>

definition np_mean :: "array \<Rightarrow> scalar" where
  "np_mean a = fdiv_count (foldl fadd (Fin 0) a) (length a)"

text \<open>
  \<open>numpy.nanmean\<close>: the mean over the entries that are not NaN (NaN when there is none).
\<close>

definition nanmean :: "array \<Rightarrow> scalar" where
  "nanmean a = np_mean (filter (\<lambda>v. v \<noteq> NaN) a)"

text \<open>\<open>numpy.argmax\<close> along the class axis: the first index at which a pixel's score is largest.\<close>

fun argmax_from :: "real \<Rightarrow> nat \<Rightarrow> nat \<Rightarrow> real list \<Rightarrow> nat" where
  "argmax_from best bi i [] = bi"
| "argmax_from best bi i (v # vs) =
     (if best < v then argmax_from v i (Suc i) vs else argmax_from best bi (Suc i) vs)"

definition np_argmax_axis1 :: "scores \<Rightarrow> labels" where
  "np_argmax_axis1 ys = map (map (\<lambda>(v, vs). int (argmax_from v 0 1 vs))) ys"

text \<open>
  Modelled from the spec: \<open>F.softmax_cross_entropy\<close> of chainer, the loss routine the class
  delegates to (sections 4.1, step 2, and 6): the softmax cross-entropy of each pixel, where
  a pixel labelled \<open>ignore_label\<close> contributes zero and is left out of the normalisation
  count, a class weight multiplies the pixel's term, and the sum is divided by the number of
  counted pixels (by 1 when there is none). Where the specification is silent the routine
  follows chainer's forward computation: the label of a counted pixel is a Python index into
  the class axis, so a negative label other than \<open>ignore_label\<close> counts from the last class;
  a pixel labelled \<open>ignore_label\<close> reads class 0 and is multiplied by zero; a weight array of
  length one is broadcast to every class. Where chainer fails (a label outside the class
  axis, a weight array of another length) the value is NaN here.
\<close>

definition log_softmax :: "real list \<Rightarrow> nat \<Rightarrow> real" where
  "log_softmax sc k = sc ! k - ln (sum_list (map exp sc))"

definition class_index :: "nat \<Rightarrow> int \<Rightarrow> nat option" where
  "class_index n_channels l =
     (if 0 \<le> l \<and> l < int n_channels then Some (nat l)
      else if - int n_channels \<le> l \<and> l < 0 then Some (nat (int n_channels + l))
      else None)"

definition weight_of :: "array option \<Rightarrow> nat \<Rightarrow> nat \<Rightarrow> scalar option" where
  "weight_of cw n_channels k =
     (case cw of
        None \<Rightarrow> Some (Fin 1)
      | Some w \<Rightarrow>
          (if length w = n_channels then Some (w ! k)
           else if length w = 1 then Some (w ! 0)
           else None))"

definition pixel_log_p :: "array option \<Rightarrow> int \<Rightarrow> real \<times> real list \<Rightarrow> int \<Rightarrow> scalar" where
  "pixel_log_p cw ign px l =
     (let sc = fst px # snd px in
      case class_index (length sc) (if l = ign then 0 else l) of
        None \<Rightarrow> NaN
      | Some k \<Rightarrow>
          (case weight_of cw (length sc) k of
             None \<Rightarrow> NaN
           | Some w \<Rightarrow> fmul (fmul w (Fin (log_softmax sc k))) (Fin (if l = ign then 0 else 1))))"

definition softmax_cross_entropy_ref :: "scores \<Rightarrow> labels \<Rightarrow> array option \<Rightarrow> int \<Rightarrow> scalar" where
  "softmax_cross_entropy_ref ys t cw ign =
     (let lab = concat t;
          log_p = map (\<lambda>(px, l). pixel_log_p cw ign px l) (zip (concat ys) lab);
          count = length (filter (\<lambda>l. l \<noteq> ign) lab)
      in fmul (foldl fadd (Fin 0) log_p) (Fin (- (1 / real (max count 1)))))"

text \<open>
  Modelled from the spec: \<open>eval_semantic_segmentation\<close> of \<open>chainercv.evaluations\<close>, which is
  defined in another module of chainercv. Section 4.1 and the glossary give its contract:
  from predicted labels, ground-truth labels and the class count it returns four arrays,
  pixel accuracy, per-class accuracy, per-class IoU (the overlap ratio between the predicted
  and the ground-truth pixel sets of a class) and frequency-weighted IoU (per-class IoU
  averaged with weights proportional to each class's pixel frequency). The undefined (NaN)
  entries of classes that are absent are skipped "per the evaluator's contract": each array
  holds one value per image, and the per-class values of an image are reduced to their mean
  over the classes for which they are defined. A pixel whose ground truth is not one of the
  classes \<open>0 .. n - 1\<close> is left out of the image (so a pixel labelled \<open>-1\<close> is ignored).
  Predicted labels are classes, and the two label arrays have the same shape.
\<close>

definition ratio :: "nat \<Rightarrow> nat \<Rightarrow> scalar" where
  "ratio a b = (if b = 0 then NaN else Fin (real a / real b))"

definition classes :: "int \<Rightarrow> int list" where
  "classes n = map int [0..<nat n]"

definition image_pixels :: "int \<Rightarrow> int list \<times> int list \<Rightarrow> (int \<times> int) list" where
  "image_pixels n im = filter (\<lambda>(p, g). 0 \<le> g \<and> g < n) (zip (fst im) (snd im))"

definition n_hit :: "(int \<times> int) list \<Rightarrow> int \<Rightarrow> nat" where
  "n_hit px k = length (filter (\<lambda>(p, g). g = k \<and> p = k) px)"

definition n_gt :: "(int \<times> int) list \<Rightarrow> int \<Rightarrow> nat" where
  "n_gt px k = length (filter (\<lambda>(p, g). g = k) px)"

definition n_union :: "(int \<times> int) list \<Rightarrow> int \<Rightarrow> nat" where
  "n_union px k = length (filter (\<lambda>(p, g). g = k \<or> p = k) px)"

definition pixel_accuracy :: "(int \<times> int) list \<Rightarrow> scalar" where
  "pixel_accuracy px = ratio (length (filter (\<lambda>(p, g). p = g) px)) (length px)"

definition class_accuracy :: "(int \<times> int) list \<Rightarrow> int \<Rightarrow> scalar" where
  "class_accuracy px k = ratio (n_hit px k) (n_gt px k)"

definition class_iou :: "(int \<times> int) list \<Rightarrow> int \<Rightarrow> scalar" where
  "class_iou px k = ratio (n_hit px k) (n_union px k)"

definition fw_term :: "(int \<times> int) list \<Rightarrow> int \<Rightarrow> real" where
  "fw_term px k =
     (if n_gt px k = 0 then 0
      else (real (n_gt px k) / real (length px)) * (real (n_hit px k) / real (n_union px k)))"

definition fw_iou :: "(int \<times> int) list \<Rightarrow> int list \<Rightarrow> scalar" where
  "fw_iou px ks = Fin (sum_list (map (fw_term px) ks))"

definition eval_semantic_segmentation_spec :: "labels \<Rightarrow> labels \<Rightarrow> int \<Rightarrow> metrics" where
  "eval_semantic_segmentation_spec pred_labels gt_labels n =
     (let ims = zip pred_labels gt_labels
      in (map (\<lambda>im. pixel_accuracy (image_pixels n im)) ims,
          map (\<lambda>im. nanmean (map (class_accuracy (image_pixels n im)) (classes n))) ims,
          map (\<lambda>im. nanmean (map (class_iou (image_pixels n im)) (classes n))) ims,
          map (\<lambda>im. fw_iou (image_pixels n im) (classes n)) ims))"

text \<open>
  The reference routines as one record. Conversion to \<open>float32\<close> and the transfers between
  memory spaces keep every value; a transfer of the predictor keeps its class count and
  its function.
\<close>

definition reference_externals :: "(scores, scores, real list) externals" where
  "reference_externals =
     \<lparr> softmax_cross_entropy = softmax_cross_entropy_ref,
       xp_argmax_axis1 = (\<lambda>b. np_argmax_axis1),
       xp_mean = (\<lambda>b. np_mean),
       eval_semantic_segmentation = eval_semantic_segmentation_spec,
       np_asarray_float32 = map Fin,
       cuda_to_cpu = (\<lambda>a. a),
       cuda_to_gpu = (\<lambda>a device. a),
       link_to_cpu = (\<lambda>p. p),
       link_to_gpu = (\<lambda>p device. p) \<rparr>"

text \<open>A predictor over \<open>n\<close> classes whose input already is the score map.\<close>

definition score_link :: "int \<Rightarrow> (scores, scores) link" where
  "score_link n = \<lparr> p_n_class = n, p_forward = (\<lambda>x. x) \<rparr>"

section \<open>Properties\<close>

subsection \<open>What a forward call computes\<close>

text \<open>The three components of the result of \<open>call\<close>, in closed form.\<close>

lemma call_loss:
  "fst (call ext c x t s) =
     softmax_cross_entropy ext (p_forward (predictor c) x) t (class_weight c) (ignore_label c)"
  by (simp add: call_def Let_def split: prod.splits)

lemma call_state:
  "fst (snd (call ext c x t s)) =
     c\<lparr>y := Assigned (p_forward (predictor c) x),
       loss := Assigned (softmax_cross_entropy ext (p_forward (predictor c) x) t
                           (class_weight c) (ignore_label c)),
       accuracy := Assigned (if compute_accuracy c then
                      Some (eval_semantic_segmentation ext
                              (xp_argmax_axis1 ext (xp c) (p_forward (predictor c) x)) t (n_class c))
                    else None)\<rparr>"
  by (simp add: call_def Let_def split: prod.splits)

lemma call_sink:
  "snd (snd (call ext c x t s)) =
     (let yv = p_forward (predictor c) x;
          l = softmax_cross_entropy ext yv t (class_weight c) (ignore_label c);
          acc = eval_semantic_segmentation ext (xp_argmax_axis1 ext (xp c) yv) t (n_class c)
      in s @ (obj_id c, [(''loss'', l)]) #
           (if compute_accuracy c then
              [(obj_id c, [(''pixel_accuracy'', xp_mean ext (xp c) (fst acc)),
                           (''mean_accuracy'', xp_mean ext (xp c) (fst (snd acc))),
                           (''mean_iou'', xp_mean ext (xp c) (fst (snd (snd acc)))),
                           (''fw_iou'', xp_mean ext (xp c) (snd (snd (snd acc))))])]
            else []))"
  by (simp add: call_def report_def Let_def split: prod.splits)

subsection \<open>Means with and without NaN\<close>

lemma foldl_fadd_NaN: "foldl fadd NaN b = NaN"
  by (induction b) simp_all


lemma np_mean_NaN: "NaN \<in> set a \<Longrightarrow> np_mean a = NaN"
proof -
  have "NaN \<in> set a \<Longrightarrow> foldl fadd acc a = NaN" for acc
  proof (induction a arbitrary: acc)
    case Nil
    then show ?case by simp
  next
    case (Cons v a)
    then show ?case
      by (cases v; cases acc) (auto simp: foldl_fadd_NaN)
  qed
  then show "NaN \<in> set a \<Longrightarrow> np_mean a = NaN"
    by (simp add: np_mean_def)
qed


text \<open>The NaN entries of an array have no part in its \<open>nanmean\<close>.\<close>

lemma nanmean_skips_NaN: "nanmean (filter (\<lambda>v. v \<noteq> NaN) a) = nanmean a"
  by (simp add: nanmean_def)


subsection \<open>The metrics of an image in which some pixel is labelled with a class\<close>









subsection \<open>The reference routines on small batches\<close>





text \<open>One image of two pixels, two classes, both predicted as class 1, the first labelled 0.\<close>

lemma ex2_argmax: "np_argmax_axis1 [[(0, [1]), (0, [1])]] = [[1, 1]]"
  by (simp add: np_argmax_axis1_def)

lemma ex2_eval:
  "eval_semantic_segmentation_spec [[1, 1]] [[0, 1]] 2 =
     ([Fin (1 / 2)], [Fin (1 / 2)], [Fin (1 / 4)], [Fin (1 / 4)])"
  "eval_semantic_segmentation_spec [[1]] [[1]] 2 = ([Fin 1], [Fin 1], [Fin 1], [Fin 1])"
  by code_simp+

lemma ex2_mean: "np_mean [Fin (1 / 2)] = Fin (1 / 2)" "np_mean [Fin (1 / 4)] = Fin (1 / 4)"
  by (simp_all add: np_mean_def)

subsection \<open>Accuracy metrics\<close>



text \<open>
  The evaluator is called with the predicted labels, the ground truth and the class count
  only, so the stored accuracy is the same for every value of \<open>ignore_label\<close>.
\<close>

lemma call_accuracy_independent_of_ignore_label:
  "accuracy (fst (snd (call ext (c\<lparr>ignore_label := a\<rparr>) x t s))) =
   accuracy (fst (snd (call ext (c\<lparr>ignore_label := b\<rparr>) x t s)))"
  by (simp add: call_state)

text \<open>
  C2 asks that pixels whose ground truth is \<open>ignore_label\<close> are left out of the accuracy
  computation. The code at \<open>ignore_label = 0\<close>, two classes, both pixels predicted as class 1
  and ground truth \<open>[0, 1]\<close>: the metrics are those of both pixels (pixel accuracy 1/2),
  not those of the one pixel that is not labelled 0 (pixel accuracy 1).
\<close>

theorem call_accuracy_counts_ignore_label_pixels:
  "accuracy (fst (snd (call reference_externals
       (init reference_externals 7 (score_link 2) (Some 0) None None)
       [[(0, [1]), (0, [1])]] [[0, 1]] []))) =
     Assigned (Some ([Fin (1 / 2)], [Fin (1 / 2)], [Fin (1 / 4)], [Fin (1 / 4)]))
   \<and> map_of (snd (last (snd (snd (call reference_externals
       (init reference_externals 7 (score_link 2) (Some 0) None None)
       [[(0, [1]), (0, [1])]] [[0, 1]] []))))) ''pixel_accuracy'' = Some (Fin (1 / 2))
   \<and> eval_semantic_segmentation_spec [[1]] [[1]] 2 = ([Fin 1], [Fin 1], [Fin 1], [Fin 1])"
  by (simp add: call_state call_sink init_def reference_externals_def score_link_def
        ex2_argmax ex2_eval ex2_mean Let_def)

subsection \<open>The loss\<close>

text \<open>
  C3: with \<open>compute_accuracy\<close> false the call makes one report, the dictionary with the
  single key \<open>loss\<close>, so none of \<open>pixel_accuracy\<close>, \<open>mean_accuracy\<close>, \<open>mean_iou\<close>,
  \<open>fw_iou\<close> reaches the reporter; and the loss it reports, returns and stores is the one
  of the same call with \<open>compute_accuracy\<close> true, whose reports start with the same entry.
\<close>

theorem call_without_accuracy:
  "snd (snd (call ext (c\<lparr>compute_accuracy := False\<rparr>) x t s)) =
     s @ [(obj_id c, [(''loss'', fst (call ext (c\<lparr>compute_accuracy := True\<rparr>) x t s))])]
   \<and> fst (call ext (c\<lparr>compute_accuracy := False\<rparr>) x t s) =
     fst (call ext (c\<lparr>compute_accuracy := True\<rparr>) x t s)
   \<and> loss (fst (snd (call ext (c\<lparr>compute_accuracy := False\<rparr>) x t s))) =
     loss (fst (snd (call ext (c\<lparr>compute_accuracy := True\<rparr>) x t s)))
   \<and> take (Suc (length s)) (snd (snd (call ext (c\<lparr>compute_accuracy := True\<rparr>) x t s))) =
     snd (snd (call ext (c\<lparr>compute_accuracy := False\<rparr>) x t s))"
  by (simp add: call_sink call_loss call_state Let_def)

text \<open>
  C4: the call returns \<open>F.softmax_cross_entropy\<close> of the predictor's output \<open>y\<close> and \<open>t\<close>
  with the stored \<open>class_weight\<close> and \<open>ignore_label\<close>; it stores \<open>y\<close> and this loss; the
  first report it makes is \<open>{'loss': loss}\<close> tagged with the instance, and the only
  further report is the one of the accuracy metrics, which comes after it.
\<close>

theorem call_returns_and_reports_loss:
  "fst (call ext c x t s) =
     softmax_cross_entropy ext (p_forward (predictor c) x) t (class_weight c) (ignore_label c)
   \<and> y (fst (snd (call ext c x t s))) = Assigned (p_forward (predictor c) x)
   \<and> loss (fst (snd (call ext c x t s))) = Assigned (fst (call ext c x t s))
   \<and> take (Suc (length s)) (snd (snd (call ext c x t s))) =
       s @ [(obj_id c, [(''loss'', fst (call ext c x t s))])]
   \<and> length (snd (snd (call ext c x t s))) = length s + (if compute_accuracy c then 2 else 1)"
  by (simp add: call_sink call_loss call_state Let_def)

subsection \<open>Construction and device transfer\<close>

text \<open>
  C5: a class-weight sequence given to the constructor is stored as
  \<open>np.asarray(class_weight, dtype=np.float32)\<close>; without one the stored \<open>class_weight\<close>
  is \<open>None\<close>.
\<close>

theorem init_class_weight:
  "class_weight (init ext oid p il (Some w) ca) = Some (np_asarray_float32 ext w)
   \<and> class_weight (init ext oid p il None ca) = None"
  by (simp add: init_def)

text \<open>
  C6: on a classifier whose \<open>class_weight\<close> is \<open>None\<close>, \<open>to_cpu\<close> and \<open>to_gpu\<close> leave
  \<open>class_weight\<close> \<open>None\<close>.
\<close>

theorem device_transfer_keeps_None:
  assumes "class_weight c = None"
  shows "class_weight (to_cpu ext c) = None \<and> class_weight (to_gpu ext device c) = None"
  using assms by (simp add: to_cpu_def to_gpu_def chain_to_cpu_def chain_to_gpu_def)

text \<open>C6 on a classifier constructed without class weights, moved to the CPU and to GPU 0.\<close>

theorem device_transfer_keeps_None_witness:
  "class_weight (init reference_externals 7 (score_link 3) None None None) = None
   \<and> class_weight (to_cpu reference_externals
        (init reference_externals 7 (score_link 3) None None None)) = None
   \<and> class_weight (to_gpu reference_externals (Some 0)
        (init reference_externals 7 (score_link 3) None None None)) = None"
proof -
  have h: "class_weight (init reference_externals 7 (score_link 3) None None None) = None"
    by (simp add: init_def)
  show ?thesis
    using h device_transfer_keeps_None [OF h, of reference_externals "Some 0"] by simp
qed

text \<open>
  C7: the constructor stores the predictor's \<open>n_class\<close>; a forward call hands the stored
  value to the evaluator; assigning another value to the predictor's attribute afterwards
  changes neither the returned loss, nor the reports, nor any attribute the call writes;
  and neither a forward call nor a device transfer assigns \<open>n_class\<close>.
\<close>

theorem n_class_read_at_construction:
  "n_class (init ext oid p il cw ca) = p_n_class p
   \<and> accuracy (fst (snd (call ext (c\<lparr>compute_accuracy := True\<rparr>) x t s))) =
       Assigned (Some (eval_semantic_segmentation ext
          (xp_argmax_axis1 ext (xp c) (p_forward (predictor c) x)) t (n_class c)))
   \<and> fst (call ext (c\<lparr>predictor := (predictor c)\<lparr>p_n_class := k\<rparr>\<rparr>) x t s) = fst (call ext c x t s)
   \<and> snd (snd (call ext (c\<lparr>predictor := (predictor c)\<lparr>p_n_class := k\<rparr>\<rparr>) x t s)) =
       snd (snd (call ext c x t s))
   \<and> fst (snd (call ext (c\<lparr>predictor := (predictor c)\<lparr>p_n_class := k\<rparr>\<rparr>) x t s)) =
       (fst (snd (call ext c x t s)))\<lparr>predictor := (predictor c)\<lparr>p_n_class := k\<rparr>\<rparr>
   \<and> n_class (fst (snd (call ext c x t s))) = n_class c
   \<and> n_class (to_cpu ext c) = n_class c
   \<and> n_class (to_gpu ext device c) = n_class c"
  by (simp add: init_def call_sink call_loss call_state to_cpu_def to_gpu_def
        chain_to_cpu_def chain_to_gpu_def Let_def split: option.splits)

text \<open>
  C8: constructed with \<open>ignore_label\<close> and \<open>compute_accuracy\<close> left out, the classifier has
  \<open>ignore_label = -1\<close> and \<open>compute_accuracy = True\<close>, and its forward call passes \<open>-1\<close> to
  the loss function as the label to ignore, like any other value of \<open>ignore_label\<close>.
\<close>

theorem init_defaults:
  "ignore_label (init ext oid p None cw None) = - 1
   \<and> compute_accuracy (init ext oid p None cw None) = True
   \<and> fst (call ext (init ext oid p None cw None) x t s) =
       softmax_cross_entropy ext (p_forward p x) t
         (class_weight (init ext oid p None cw None)) (- 1)"
  by (simp add: init_def call_loss)

subsection \<open>What a forward call changes\<close>

text \<open>
  C9: after a forward call \<open>n_class\<close>, \<open>ignore_label\<close>, \<open>class_weight\<close> and
  \<open>compute_accuracy\<close> are what they were before, and the instance differs from the one
  before the call in \<open>y\<close>, \<open>loss\<close> and \<open>accuracy\<close> at most.
\<close>

theorem call_frame:
  "n_class (fst (snd (call ext c x t s))) = n_class c
   \<and> ignore_label (fst (snd (call ext c x t s))) = ignore_label c
   \<and> class_weight (fst (snd (call ext c x t s))) = class_weight c
   \<and> compute_accuracy (fst (snd (call ext c x t s))) = compute_accuracy c
   \<and> fst (snd (call ext c x t s)) =
       c\<lparr>y := y (fst (snd (call ext c x t s))),
         loss := loss (fst (snd (call ext c x t s))),
         accuracy := accuracy (fst (snd (call ext c x t s)))\<rparr>"
  by (simp add: call_state)

text \<open>
  C10: after a forward call with \<open>compute_accuracy\<close> false the attribute \<open>accuracy\<close> is
  \<open>None\<close>, whatever it held before.
\<close>

theorem call_resets_accuracy:
  assumes "\<not> compute_accuracy c"
  shows "accuracy (fst (snd (call ext c x t s))) = Assigned None"
  using assms by (simp add: call_state)

text \<open>
  C10 on an instance that a call with accuracy enabled has left with four metrics stored:
  the flag is cleared, the next call leaves \<open>accuracy\<close> \<open>None\<close>.
\<close>

theorem call_resets_accuracy_witness:
  "accuracy (fst (snd (call reference_externals
       (init reference_externals 7 (score_link 2) None None None)
       [[(0, [1]), (0, [1])]] [[0, 1]] []))) =
     Assigned (Some ([Fin (1 / 2)], [Fin (1 / 2)], [Fin (1 / 4)], [Fin (1 / 4)]))
   \<and> \<not> compute_accuracy ((fst (snd (call reference_externals
       (init reference_externals 7 (score_link 2) None None None)
       [[(0, [1]), (0, [1])]] [[0, 1]] [])))\<lparr>compute_accuracy := False\<rparr>)
   \<and> accuracy (fst (snd (call reference_externals
       ((fst (snd (call reference_externals
          (init reference_externals 7 (score_link 2) None None None)
          [[(0, [1]), (0, [1])]] [[0, 1]] [])))\<lparr>compute_accuracy := False\<rparr>)
       [[(1, [0]), (0, [1])]] [[1, 0]] []))) = Assigned None"
proof -
  let ?c = "(fst (snd (call reference_externals
       (init reference_externals 7 (score_link 2) None None None)
       [[(0, [1]), (0, [1])]] [[0, 1]] [])))\<lparr>compute_accuracy := False\<rparr>"
  have h: "\<not> compute_accuracy ?c" by simp
  have a: "accuracy (fst (snd (call reference_externals
       (init reference_externals 7 (score_link 2) None None None)
       [[(0, [1]), (0, [1])]] [[0, 1]] []))) =
     Assigned (Some ([Fin (1 / 2)], [Fin (1 / 2)], [Fin (1 / 4)], [Fin (1 / 4)]))"
    by (simp add: call_state init_def reference_externals_def score_link_def
          ex2_argmax ex2_eval)
  show ?thesis
    using a h call_resets_accuracy [OF h, of reference_externals "[[(1, [0]), (0, [1])]]" "[[1, 0]]" "[]"]
    by simp
qed

end
